theory Spec2Isabelle
  imports Complex_Main
begin

section \<open>Python values used by the engine\<close>

text \<open>
  The engine is Python. Exceptions are values of \<open>error\<close>; a function that can raise
  returns \<open>error + 'a\<close> with \<open>Inl\<close> for the exception. Strings are lists of
  characters, one \<open>char\<close> per code point (the FEN alphabet is ASCII).
\<close>

datatype error =
  TimeoutError | IndexError | ValueError | AttributeError | TypeError | OverflowError

subsection \<open>str.count, str.endswith, str.split\<close>

text \<open>\<^verbatim>\<open>s.count(sub)\<close>: the number of non-overlapping occurrences, scanning from the left.\<close>

function py_count :: "string \<Rightarrow> string \<Rightarrow> nat" where
  "py_count s sub =
     (if sub = [] then length s + 1
      else if s = [] then 0
      else if take (length sub) s = sub then 1 + py_count (drop (length sub) s) sub
      else py_count (tl s) sub)"
  by pat_completeness auto
termination
  by (relation "measure (\<lambda>(s, sub). length s)") auto

declare py_count.simps [simp del]

definition endswith :: "string \<Rightarrow> string \<Rightarrow> bool" where
  "endswith s suf = (length suf \<le> length s \<and> drop (length s - length suf) s = suf)"

text \<open>\<^verbatim>\<open>c.isspace()\<close> on the code points below 256.\<close>

definition is_space :: "char \<Rightarrow> bool" where
  "is_space c = (let n = (of_char c :: nat) in
     (9 \<le> n \<and> n \<le> 13) \<or> (28 \<le> n \<and> n \<le> 32) \<or> n = 133 \<or> n = 160)"

text \<open>\<^verbatim>\<open>s.split()\<close>: the maximal runs of non-whitespace characters.\<close>

function split_ws :: "string \<Rightarrow> string list" where
  "split_ws s =
     (let s' = dropWhile is_space s in
      if s' = [] then []
      else takeWhile (\<lambda>c. \<not> is_space c) s' # split_ws (dropWhile (\<lambda>c. \<not> is_space c) s'))"
  by pat_completeness auto
termination
proof (relation "measure length", goal_cases)
  case 1
  show ?case by simp
next
  case (2 s s')
  then obtain c cs where s': "s' = c # cs" and c: "\<not> is_space c"
    by (metis dropWhile_eq_Cons_conv neq_Nil_conv)
  have "length (dropWhile (\<lambda>c. \<not> is_space c) s') \<le> length cs"
    using s' c by (simp add: length_dropWhile_le)
  moreover have "length s' \<le> length s"
    using 2 by (simp add: length_dropWhile_le)
  ultimately show ?case using s' by simp
qed

declare split_ws.simps [simp del]

text \<open>\<^verbatim>\<open>s.split(sep)\<close> for a one-character separator: empty fields are kept.\<close>

fun split_on :: "char \<Rightarrow> string \<Rightarrow> string list" where
  "split_on sep [] = [[]]"
| "split_on sep (c # cs) =
     (if c = sep then [] # split_on sep cs
      else (case split_on sep cs of
              [] \<Rightarrow> [[c]]
            | r # rs \<Rightarrow> (c # r) # rs))"

text \<open>\<^verbatim>\<open>s.strip()\<close>\<close>

definition py_strip :: "string \<Rightarrow> string" where
  "py_strip s = rev (dropWhile is_space (rev (dropWhile is_space s)))"

section \<open>GamePhaseClassifier (alpha\_beta\_ki.py)\<close>

definition count_pieces :: "string \<Rightarrow> nat" where
  "count_pieces fen_str =
     py_count fen_str ''r'' + py_count fen_str ''b'' + py_count fen_str ''RG'' + py_count fen_str ''BG''"

definition count_my_pieces :: "string \<Rightarrow> int" where
  "count_my_pieces fen_str =
     (let player = (if endswith fen_str '' r'' then 1 else 2 :: int) in
      if player = 1 then int (py_count fen_str ''r'') + int (py_count fen_str ''RG'')
      else int (py_count fen_str ''b'') + int (py_count fen_str ''BG''))"

definition count_enemy_pieces :: "string \<Rightarrow> int" where
  "count_enemy_pieces fen_str =
     (let player = (if endswith fen_str '' r'' then 1 else 2 :: int) in
      if player = 1 then int (py_count fen_str ''b'') + int (py_count fen_str ''BG'')
      else int (py_count fen_str ''r'') + int (py_count fen_str ''RG''))"

definition diff_of_pieces :: "string \<Rightarrow> int" where
  "diff_of_pieces fen_str =
     (let my_pieces = count_my_pieces fen_str;
          enemy_pieces = count_enemy_pieces fen_str
      in my_pieces - enemy_pieces)"

text \<open>
  \<^verbatim>\<open>fen_str.split()[0]\<close> raises IndexError when the string holds no field;
  \<^verbatim>\<open>rows[4:7]\<close> and \<^verbatim>\<open>rows[0:3]\<close> are slices and never raise.
\<close>

definition count_enemy_pieces_in_half :: "string \<Rightarrow> error + int" where
  "count_enemy_pieces_in_half fen_str =
     (let player = (if endswith fen_str '' r'' then 1 else 2 :: int) in
      case split_ws fen_str of
        [] \<Rightarrow> Inl IndexError
      | field # _ \<Rightarrow>
          (let rows = split_on CHR ''/'' field;
               our_half_rows = (if player = 1 then take 3 (drop 4 rows) else take 3 rows);
               enemy_pieces = (if player = 1 then [''b'', ''BG''] else [''r'', ''RG''])
           in Inr (\<Sum>row \<leftarrow> our_half_rows. \<Sum>piece \<leftarrow> enemy_pieces. int (py_count row piece))))"

definition detect_game_phase :: "string \<Rightarrow> error + string" where
  "detect_game_phase fen_str =
     (let piece_diff = diff_of_pieces fen_str in
      case count_enemy_pieces_in_half fen_str of
        Inl e \<Rightarrow> Inl e
      | Inr enemy_in_half \<Rightarrow>
          (let my_pieces = count_my_pieces fen_str;
               enemy_pieces = count_enemy_pieces fen_str;
               total = my_pieces + enemy_pieces;
               base = (if total \<ge> 12 then ''opening''
                       else if total \<ge> 7 then ''midgame''
                       else ''endgame'');
               crit0 = (0::int);
               crit1 = (if piece_diff \<le> -3 then crit0 + 2
                        else if piece_diff \<le> -1 then crit0 + 1 else crit0);
               crit2 = (if enemy_in_half \<ge> 3 then crit1 + 2
                        else if enemy_in_half \<ge> 1 then crit1 + 1 else crit1);
               crit = (if my_pieces \<le> 2 \<or> enemy_pieces \<le> 2 then crit2 + 3 else crit2)
           in if crit \<ge> 3 then Inr ''critical''
              else if crit \<ge> 1 \<and> base \<noteq> ''endgame'' then Inr (base @ ''_critical'')
              else Inr base))"

definition phase_budget :: "(string \<times> real) list" where
  "phase_budget =
     [(''opening'', 0.2),
      (''midgame'', 0.3),
      (''opening_critical'', 0.4),
      (''midgame_critical'', 0.5),
      (''critical'', 0.5),
      (''endgame'', 0.2),
      (''endgame_critical'', 0.2)]"

definition allocate_time :: "string \<Rightarrow> error + real" where
  "allocate_time fen_str =
     (case detect_game_phase fen_str of
        Inl e \<Rightarrow> Inl e
      | Inr phase \<Rightarrow>
          Inr (case map_of phase_budget phase of None \<Rightarrow> 0.2 | Some b \<Rightarrow> b))"




section \<open>The board, the rules engine and the other collaborators\<close>

text \<open>
  The classes BitboardBoard and BitboardRules, the function
  \<^verbatim>\<open>distance_to_opponent_start\<close>, Python's \<^verbatim>\<open>hash\<close> and the clock are not part of
  the engine. The board is the record of the fields that \<^verbatim>\<open>evaluate\<close>,
  \<^verbatim>\<open>parse_fen\<close> and \<^verbatim>\<open>win_check\<close> read and write: one bit set per square
  for each guardian and, per owner, one bit set per height (1 to 7) for the towers.
  The bitboards are Python integers.
  Everything the engine only calls is a field of \<open>collab\<close>, and every definition of the
  engine takes a \<open>collab\<close>: theorems hold for all of them.
\<close>

type_synonym pos = "int \<times> int"
type_synonym move = "pos \<times> pos \<times> int"

record bitboard =
  red_guardian :: int
  blue_guardian :: int
  red_towers :: "int \<Rightarrow> int"
  blue_towers :: "int \<Rightarrow> int"

record rules =
  board :: bitboard
  current_player :: int

record params =
  material_weight :: int
  guardian_advance :: int
  guardian_safety :: int
  center_control :: int
  tower_height :: int
  aggression :: int
  mobility :: int
  positioning :: int
  tempo :: int
  win_bonus :: int

record collab =
  get_stack_owner :: "bitboard \<Rightarrow> int \<Rightarrow> int \<Rightarrow> int option"
  get_top_piece_type :: "bitboard \<Rightarrow> int \<Rightarrow> int \<Rightarrow> string option"
  to_fen :: "bitboard \<Rightarrow> int \<Rightarrow> string"
  distance_to_opponent_start :: "bitboard \<Rightarrow> int \<Rightarrow> int"
  get_legal_moves :: "rules \<Rightarrow> int \<Rightarrow> move list"
  make_move :: "rules \<Rightarrow> move \<Rightarrow> rules"
  py_hash :: "string \<Rightarrow> int"
  time_time :: "nat \<Rightarrow> real"
  float_add :: "real \<Rightarrow> real \<Rightarrow> real"
  float_sub :: "real \<Rightarrow> real \<Rightarrow> real"
  ml_optimized_params :: params

text \<open>
  \<open>get_top_piece_type\<close> gives the name of the piece type on a square, or None.
  \<open>make_move c r mv\<close> is \<^verbatim>\<open>deepcopy(r)\<close> followed by \<^verbatim>\<open>make_move(*mv)\<close> on the
  copy. \<open>time_time c k\<close> is what the \<open>k\<close>-th call of \<^verbatim>\<open>time.time()\<close> returns. A float
  is read as the real number it stands for; \<open>float_add\<close> and \<open>float_sub\<close> are the
  rounded sum and difference of two floats, and comparing two floats is comparing the
  reals. A decimal literal of the source is written as it stands. \<open>ml_optimized_params\<close> is what \<^verbatim>\<open>load_ml_optimized_params\<close>
  yields: the file's content, or a copy of the defaults.
\<close>

text \<open>\<^verbatim>\<open>BitboardBoard.SIZE\<close>: the board is 7 by 7 (columns A to G, rows 1 to 7).\<close>

definition SIZE :: int where
  "SIZE = 7"

text \<open>
  \<^verbatim>\<open>BitboardBoard._set_bit(bb, x, y)\<close>: square \<open>(x, y)\<close> is bit \<open>y * SIZE + x\<close>, the
  numbering that \<^verbatim>\<open>evaluate\<close> decodes with \<^verbatim>\<open>pos % size, pos // size\<close>.
\<close>

definition set_bit_xy :: "int \<Rightarrow> int \<Rightarrow> int \<Rightarrow> int" where
  "set_bit_xy bb x y = set_bit (nat (y * SIZE + x)) bb"

text \<open>\<^verbatim>\<open>BitboardBoard(setup_initial=False)\<close>: no piece on the board.\<close>

definition empty_board :: bitboard where
  "empty_board = \<lparr>red_guardian = 0, blue_guardian = 0,
                   red_towers = (\<lambda>h. 0), blue_towers = (\<lambda>h. 0)\<rparr>"

subsection \<open>core/fen.py: parse\_fen\<close>

text \<open>
  \<^verbatim>\<open>c.isdigit()\<close> on the code points below 256 holds for the ASCII digits and for
  the superscripts 1, 2 and 3, on which \<^verbatim>\<open>int(c)\<close> raises ValueError.
\<close>

definition py_isdigit :: "char \<Rightarrow> bool" where
  "py_isdigit c = (let n = (of_char c :: int) in (48 \<le> n \<and> n \<le> 57) \<or> n = 178 \<or> n = 179 \<or> n = 185)"

definition py_int_of_char :: "char \<Rightarrow> error + int" where
  "py_int_of_char c = (let n = (of_char c :: int) in
     if 48 \<le> n \<and> n \<le> 57 then Inr (n - 48) else Inl ValueError)"

text \<open>
  The inner \<^verbatim>\<open>while i < len(row) and x < board.SIZE\<close> loop, on the part of the row from
  index \<open>i\<close> on.
\<close>

fun parse_row :: "int \<Rightarrow> string \<Rightarrow> int \<Rightarrow> bitboard \<Rightarrow> error + bitboard" where
  "parse_row y [] x b = Inr b"
| "parse_row y [a] x b =
     (if \<not> x < SIZE then Inr b
      else if py_isdigit a then
        (case py_int_of_char a of
           Inl e \<Rightarrow> Inl e
         | Inr empty_count \<Rightarrow> parse_row y [] (x + empty_count) b)
      else parse_row y [] x b)"
| "parse_row y (a # d # rest) x b =
     (if \<not> x < SIZE then Inr b
      else if [a, d] = ''RG'' then
        parse_row y rest (x + 1) (b\<lparr>red_guardian := set_bit_xy (red_guardian b) x y\<rparr>)
      else if [a, d] = ''BG'' then
        parse_row y rest (x + 1) (b\<lparr>blue_guardian := set_bit_xy (blue_guardian b) x y\<rparr>)
      else if (a = CHR ''r'' \<or> a = CHR ''b'') \<and> py_isdigit d then
        (let player = (if a = CHR ''r'' then 1 else 2 :: int) in
         case py_int_of_char d of
           Inl e \<Rightarrow> Inl e
         | Inr height \<Rightarrow>
             parse_row y rest (x + 1)
               (if 1 \<le> height \<and> height \<le> 7 then
                  (if player = 1
                   then b\<lparr>red_towers := (red_towers b)(height := set_bit_xy (red_towers b height) x y)\<rparr>
                   else b\<lparr>blue_towers := (blue_towers b)(height := set_bit_xy (blue_towers b height) x y)\<rparr>)
                else b))
      else if py_isdigit a then
        (case py_int_of_char a of
           Inl e \<Rightarrow> Inl e
         | Inr empty_count \<Rightarrow> parse_row y (d # rest) (x + empty_count) b)
      else parse_row y (d # rest) x b)"

text \<open>The outer \<^verbatim>\<open>for y, row in enumerate(rows)\<close> loop with its \<^verbatim>\<open>break\<close>.\<close>

fun parse_rows :: "int \<Rightarrow> string list \<Rightarrow> bitboard \<Rightarrow> error + bitboard" where
  "parse_rows y [] b = Inr b"
| "parse_rows y (row # rows) b =
     (if y \<ge> SIZE then Inr b
      else (case parse_row y row 0 b of
              Inl e \<Rightarrow> Inl e
            | Inr b' \<Rightarrow> parse_rows (y + 1) rows b'))"

definition parse_fen :: "string \<Rightarrow> error + (bitboard \<times> int)" where
  "parse_fen fen_str =
     (case split_ws (py_strip fen_str) of
        board_str # side # _ \<Rightarrow>
          (let current_player = (if side = ''r'' then 1 else 2 :: int) in
           case parse_rows 0 (split_on CHR ''/'' board_str) empty_board of
             Inl e \<Rightarrow> Inl e
           | Inr b \<Rightarrow> Inr (b, current_player))
      | _ \<Rightarrow> Inl IndexError)"

text \<open>
  \<^verbatim>\<open>describe_move\<close> builds a string that may hold any code point, so its result is the
  list of the code points. \<^verbatim>\<open>chr\<close> raises OverflowError on an argument that is no C
  int and ValueError on any other argument outside \<^verbatim>\<open>range(0x110000)\<close>.
\<close>

type_synonym code_points = "int list"

function show_digits :: "int \<Rightarrow> code_points" where
  "show_digits n =
     (if n < 10 then [48 + n] else show_digits (n div 10) @ [48 + n mod 10])"
  by pat_completeness auto
termination
  by (relation "measure nat") auto

declare show_digits.simps [simp del]

definition show_int :: "int \<Rightarrow> code_points" where
  "show_int i = (if i < 0 then 45 # show_digits (- i) else show_digits i)"

definition py_chr :: "int \<Rightarrow> error + code_points" where
  "py_chr n =
     (if n < - 2147483648 \<or> 2147483647 < n then Inl OverflowError
      else if 0 \<le> n \<and> n < 1114112 then Inr [n]
      else Inl ValueError)"

definition describe_move :: "pos \<Rightarrow> pos \<Rightarrow> int \<Rightarrow> error + code_points" where
  "describe_move from_pos to_pos height =
     (case py_chr (fst from_pos + 65) of
        Inl e \<Rightarrow> Inl e
      | Inr from_col \<Rightarrow>
          (let from_row = 7 - snd from_pos in
           case py_chr (fst to_pos + 65) of
             Inl e \<Rightarrow> Inl e
           | Inr to_col \<Rightarrow>
               (let to_row = 7 - snd to_pos in
                Inr (from_col @ show_int from_row @ [45] @ to_col @ show_int to_row
                       @ [45] @ show_int height))))"

subsection \<open>win\_check.py\<close>

definition opponent_guardian_exists :: "bitboard \<Rightarrow> int \<Rightarrow> bool" where
  "opponent_guardian_exists b opponent =
     (if opponent = 1 then red_guardian b \<noteq> 0 else blue_guardian b \<noteq> 0)"

definition check_win_by_distance_or_capture :: "collab \<Rightarrow> bitboard \<Rightarrow> int \<Rightarrow> bool" where
  "check_win_by_distance_or_capture c b player =
     (let dist = distance_to_opponent_start c b player in
      if dist = 0 then True
      else (let opponent = 3 - player in
            if \<not> opponent_guardian_exists b opponent then True else False))"


subsection \<open>evaluate.py\<close>

definition DEFAULT_PARAMS :: params where
  "DEFAULT_PARAMS = \<lparr>material_weight = 80, guardian_advance = 40, guardian_safety = 200,
     center_control = 25, tower_height = 20, aggression = 50, mobility = 10,
     positioning = 10, tempo = 20, win_bonus = 10000\<rparr>"

text \<open>
  \<^verbatim>\<open>int.bit_count()\<close> and \<^verbatim>\<open>int.bit_length()\<close>: both read the absolute value.
\<close>

function bit_count :: "int \<Rightarrow> int" where
  "bit_count n =
     (if n = 0 then 0
      else if n < 0 then bit_count (- n)
      else n mod 2 + bit_count (n div 2))"
  by pat_completeness auto
termination
  by (relation "measure (\<lambda>n. if n < 0 then 2 * nat (- n) + 1 else 2 * nat n)") auto

function bit_length :: "int \<Rightarrow> int" where
  "bit_length n =
     (if n = 0 then 0
      else if n < 0 then bit_length (- n)
      else 1 + bit_length (n div 2))"
  by pat_completeness auto
termination
  by (relation "measure (\<lambda>n. if n < 0 then 2 * nat (- n) + 1 else 2 * nat n)") auto

declare bit_count.simps [simp del] bit_length.simps [simp del]

text \<open>\<^verbatim>\<open>bb & (1 << pos)\<close> as a truth value, for a position that is not negative.\<close>

definition has_bit :: "int \<Rightarrow> int \<Rightarrow> bool" where
  "has_bit bb pos = bit bb (nat pos)"

definition center_squares :: "(int \<times> int) list" where
  "center_squares = [(2,3), (3,3), (4,3), (2,4), (3,4), (4,4)]"

definition evaluate :: "collab \<Rightarrow> string \<Rightarrow> params option \<Rightarrow> error + int" where
  "evaluate c fen_str params_arg =
     (let params = (case params_arg of None \<Rightarrow> DEFAULT_PARAMS | Some p \<Rightarrow> p) in
      case parse_fen fen_str of
        Inl e \<Rightarrow> Inl e
      | Inr (bd, player) \<Rightarrow>
      (let sz = SIZE in
       if check_win_by_distance_or_capture c bd player then Inr (win_bonus params)
       else if check_win_by_distance_or_capture c bd (3 - player) then Inr (- win_bonus params)
       else
       (let my_guard_bb = (if player = 1 then red_guardian bd else blue_guardian bd);
            enemy_guard_bb = (if player = 1 then blue_guardian bd else red_guardian bd);
            my_towers = (if player = 1 then red_towers bd else blue_towers bd);
            enemy_towers = (if player = 1 then blue_towers bd else red_towers bd);
            my_target = (if player = 1 then (3, 6) else (3, 0) :: int \<times> int);
            score0 = (0::int);
            \<comment> \<open>material and height\<close>
            my_pieces0 = (\<Sum>h \<leftarrow> [1..7]. bit_count (my_towers h));
            enemy_pieces0 = (\<Sum>h \<leftarrow> [1..7]. bit_count (enemy_towers h));
            my_height_total =
              (\<Sum>h \<leftarrow> [1..7]. if h \<ge> 3 then h * bit_count (my_towers h) else 0);
            enemy_height_total =
              (\<Sum>h \<leftarrow> [1..7]. if h \<ge> 3 then h * bit_count (enemy_towers h) else 0);
            my_pieces = my_pieces0 + bit_count my_guard_bb;
            enemy_pieces = enemy_pieces0 + bit_count enemy_guard_bb;
            score1 = score0 + material_weight params * (my_pieces - enemy_pieces);
            score2 = score1 + tower_height params * (my_height_total - enemy_height_total);
            \<comment> \<open>guardian strategy\<close>
            score3 =
              (if my_guard_bb \<noteq> 0 then
                 (let my_guard_pos = bit_length my_guard_bb - 1;
                      gx = my_guard_pos mod sz;
                      gy = my_guard_pos div sz;
                      dist_to_target = \<bar>gx - fst my_target\<bar> + \<bar>gy - snd my_target\<bar>;
                      s1 = score2 - guardian_advance params * dist_to_target;
                      center_dist = \<bar>gx - 3\<bar> + \<bar>gy - 3\<bar>;
                      s2 = s1 + center_control params * max 0 (3 - center_dist);
                      edge_dist = min (min gx (sz - 1 - gx)) (min gy (sz - 1 - gy))
                  in if edge_dist = 0 then s2 - guardian_safety params div 2 else s2)
               else score2);
            \<comment> \<open>positional control\<close>
            owners = map (\<lambda>(x, y). get_stack_owner c bd x y) center_squares;
            my_center = (\<Sum>owner \<leftarrow> owners. if owner = Some player then 1 else 0 :: int);
            enemy_center =
              (\<Sum>owner \<leftarrow> owners.
                 if owner = Some player then 0
                 else if owner = Some (3 - player) then 1 else 0 :: int);
            score4 = score3 + center_control params * (my_center - enemy_center);
            \<comment> \<open>mobility\<close>
            mobility_score = (\<Sum>h \<leftarrow> [1..3]. bit_count (my_towers h) * h);
            score5 = score4 + mobility params * mobility_score;
            \<comment> \<open>aggression\<close>
            score6 =
              (if enemy_guard_bb \<noteq> 0 then
                 (let enemy_guard_pos = bit_length enemy_guard_bb - 1;
                      ex = enemy_guard_pos mod sz;
                      ey = enemy_guard_pos div sz;
                      threats =
                        (\<Sum>h \<leftarrow> [1..3]. \<Sum>pos \<leftarrow> [0..min 20 (sz * sz) - 1].
                           if has_bit (my_towers h) pos
                              \<and> \<bar>pos mod sz - ex\<bar> + \<bar>pos div sz - ey\<bar> \<le> h + 1
                           then 1 else 0 :: int)
                  in score5 + aggression params * threats)
               else score5);
            \<comment> \<open>positioning\<close>
            middle = sz div 2;
            my_advanced =
              (\<Sum>h \<leftarrow> [1..2]. \<Sum>pos \<leftarrow> [0..sz * middle - 1].
                 if player = 1 \<and> has_bit (my_towers h) pos then 1 else 0 :: int);
            enemy_advanced =
              (\<Sum>h \<leftarrow> [1..2]. \<Sum>pos \<leftarrow> [0..sz * middle - 1].
                 if player = 1 \<and> has_bit (my_towers h) pos then 0
                 else if player = 2 \<and> has_bit (enemy_towers h) pos then 1 else 0 :: int);
            score7 = score6 + positioning params * (my_advanced - enemy_advanced);
            \<comment> \<open>tempo\<close>
            tempo_score = my_pieces * 2 - enemy_pieces;
            score8 = score7 + tempo params * tempo_score
        in Inr (if player = 1 then score8 else - score8))))"

section \<open>The search engine (alpha\_beta\_ki.py)\<close>

subsection \<open>Scores and the state of one process\<close>

text \<open>
  Scores are Python integers; the search window also takes \<^verbatim>\<open>float('inf')\<close> and
  \<^verbatim>\<open>-float('inf')\<close>, which compare with integers in the usual way.
\<close>

datatype score = NegInf | Fin int | PosInf

instantiation score :: "{linorder, uminus}"
begin

fun less_eq_score :: "score \<Rightarrow> score \<Rightarrow> bool" where
  "less_eq_score NegInf _ = True"
| "less_eq_score _ PosInf = True"
| "less_eq_score (Fin a) (Fin b) = (a \<le> b)"
| "less_eq_score _ _ = False"

definition less_score :: "score \<Rightarrow> score \<Rightarrow> bool" where
  "less_score a b = (a \<le> b \<and> \<not> b \<le> a)"

fun uminus_score :: "score \<Rightarrow> score" where
  "uminus_score NegInf = PosInf"
| "uminus_score (Fin a) = Fin (- a)"
| "uminus_score PosInf = NegInf"

instance
proof
  fix x y z :: score
  show "(x < y) = (x \<le> y \<and> \<not> y \<le> x)" by (simp add: less_score_def)
  show "x \<le> x" by (cases x) simp_all
  show "x \<le> y \<Longrightarrow> y \<le> z \<Longrightarrow> x \<le> z" by (cases x; cases y; cases z) simp_all
  show "x \<le> y \<Longrightarrow> y \<le> x \<Longrightarrow> x = y" by (cases x; cases y) simp_all
  show "x \<le> y \<or> y \<le> x" by (cases x; cases y) auto
qed

end

definition MAX_DEPTH :: nat where "MAX_DEPTH = 4"
definition TIME_BUFFER :: real where "TIME_BUFFER = 0.05"
definition NULL_MOVE_REDUCTION :: nat where "NULL_MOVE_REDUCTION = 1"
definition WIN_SCORE :: int where "WIN_SCORE = 100000"

text \<open>
  The module's globals, and \<open>clock\<close>: the number of calls of \<^verbatim>\<open>time.time()\<close> made so
  far in the process.
\<close>

record search_state =
  nodes_visited :: int
  ttable :: "(int \<times> nat) \<Rightarrow> score option"
  time_start :: real
  time_budget :: real
  clock :: nat

definition now :: "collab \<Rightarrow> search_state \<Rightarrow> real \<times> search_state" where
  "now c st = (time_time c (clock st), st\<lparr>clock := clock st + 1\<rparr>)"

definition store :: "(int \<times> nat) \<Rightarrow> score \<Rightarrow> search_state \<Rightarrow> search_state" where
  "store key v st = st\<lparr>ttable := (ttable st)(key \<mapsto> v)\<rparr>"

definition get_evaluation_params :: "collab \<Rightarrow> params" where
  "get_evaluation_params c = ml_optimized_params c"

subsection \<open>MoveOrderer: order\_moves\_fast\<close>

definition is_guardian_move :: "collab \<Rightarrow> rules \<Rightarrow> move \<Rightarrow> bool" where
  "is_guardian_move c r mv =
     (case mv of (frm, to, h) \<Rightarrow>
        (case get_top_piece_type c (board r) (fst frm) (snd frm) of
           None \<Rightarrow> False
         | Some name \<Rightarrow> name = ''WAECHTER''))"

definition is_capture_move :: "collab \<Rightarrow> rules \<Rightarrow> move \<Rightarrow> bool" where
  "is_capture_move c r mv =
     (case mv of (frm, to, h) \<Rightarrow>
        (case get_stack_owner c (board r) (fst to) (snd to) of
           None \<Rightarrow> False
         | Some target_owner \<Rightarrow> target_owner \<noteq> 0 \<and> target_owner \<noteq> current_player r))"

text \<open>The \<^verbatim>\<open>for mv in moves\<close> loop, on the three lists it appends to.\<close>

fun order_loop ::
  "collab \<Rightarrow> rules \<Rightarrow> move list \<Rightarrow> move list \<times> move list \<times> move list
     \<Rightarrow> move list \<times> move list \<times> move list" where
  "order_loop c r [] acc = acc"
| "order_loop c r (mv # mvs) (guardian_moves, capture_moves, other_moves) =
     (if is_guardian_move c r mv
        then order_loop c r mvs (guardian_moves @ [mv], capture_moves, other_moves)
      else if is_capture_move c r mv
        then order_loop c r mvs (guardian_moves, capture_moves @ [mv], other_moves)
      else order_loop c r mvs (guardian_moves, capture_moves, other_moves @ [mv]))"

definition order_moves_fast :: "collab \<Rightarrow> rules \<Rightarrow> move list \<Rightarrow> move list" where
  "order_moves_fast c r moves =
     (if moves = [] then moves
      else (case order_loop c r moves ([], [], []) of
              (guardian_moves, capture_moves, other_moves) \<Rightarrow>
                guardian_moves @ capture_moves @ other_moves))"

subsection \<open>NegamaxEngine\<close>

text \<open>
  The \<^verbatim>\<open>for mv in order_moves_fast(rules, moves)\<close> loop of \<^verbatim>\<open>negamax\<close>;
  \<open>search\<close> is the recursive call on the child, one ply shallower. An exception in
  the child leaves the loop and the function.
\<close>

fun negamax_moves ::
  "(rules \<Rightarrow> score \<Rightarrow> score \<Rightarrow> search_state \<Rightarrow> (error + score) \<times> search_state)
     \<Rightarrow> collab \<Rightarrow> rules \<Rightarrow> int \<Rightarrow> score \<Rightarrow> score \<Rightarrow> score \<Rightarrow> move list \<Rightarrow> search_state
     \<Rightarrow> (error + score) \<times> search_state" where
  "negamax_moves search c r player alpha beta best [] st = (Inr best, st)"
| "negamax_moves search c r player alpha beta best (mv # mvs) st =
     (let child = (make_move c r mv)\<lparr>current_player := 3 - player\<rparr> in
      case search child (- beta) (- alpha) st of
        (Inl e, st') \<Rightarrow> (Inl e, st')
      | (Inr v, st') \<Rightarrow>
          (let score = - v;
               best' = max best score;
               alpha' = max alpha best'
           in if best' \<ge> Fin WIN_SCORE \<or> alpha' \<ge> beta then (Inr best', st')
              else negamax_moves search c r player alpha' beta best' mvs st'))"

datatype null_move = Raise error | Cutoff score | NoCutoff

function negamax ::
  "collab \<Rightarrow> rules \<Rightarrow> nat \<Rightarrow> score \<Rightarrow> score \<Rightarrow> int \<Rightarrow> real \<Rightarrow> params option \<Rightarrow> search_state
     \<Rightarrow> (error + score) \<times> search_state" where
  "negamax c r depth alpha beta player stop_time eval_params st =
     (case now c st of (t, st1) \<Rightarrow>
      if t \<ge> float_sub c stop_time TIME_BUFFER then (Inl TimeoutError, st1)
      else
      (let st2 = st1\<lparr>nodes_visited := nodes_visited st1 + 1\<rparr>;
           fen = to_fen c (board r) player;
           key = (py_hash c fen mod 10000, depth)
       in case ttable st2 key of
            Some v \<Rightarrow> (Inr v, st2)
          | None \<Rightarrow>
            if check_win_by_distance_or_capture c (board r) player
              then (Inr (Fin WIN_SCORE), store key (Fin WIN_SCORE) st2)
            else if check_win_by_distance_or_capture c (board r) (3 - player)
              then (Inr (Fin (- WIN_SCORE)), store key (Fin (- WIN_SCORE)) st2)
            else
            (let moves = get_legal_moves c r player in
             if depth = 0 \<or> moves = [] then
               (let eval_params' = (case eval_params of
                                      None \<Rightarrow> get_evaluation_params c | Some p \<Rightarrow> p) in
                case evaluate c fen (Some eval_params') of
                  Inl e \<Rightarrow> (Inl e, st2)
                | Inr val \<Rightarrow> (Inr (Fin val), store key (Fin val) st2))
             else
             (case (if depth > 2 then
                      (let null_rules = r\<lparr>current_player := 3 - player\<rparr> in
                       case negamax c null_rules (depth - 1 - NULL_MOVE_REDUCTION)
                              (- beta) (- alpha) player stop_time eval_params st2 of
                         (Inl e, st3) \<Rightarrow> (Raise e, st3)
                       | (Inr v, st3) \<Rightarrow>
                           (let val = - v in
                            if val \<ge> beta then (Cutoff beta, store key beta st3)
                            else (NoCutoff, st3)))
                    else (NoCutoff, st2)) of
                (Raise e, st3) \<Rightarrow> (Inl e, st3)
              | (Cutoff b, st3) \<Rightarrow> (Inr b, st3)
              | (NoCutoff, st3) \<Rightarrow>
                  (case negamax_moves
                          (\<lambda>child a b s. negamax c child (depth - 1) a b (3 - player)
                                            stop_time eval_params s)
                          c r player alpha beta NegInf (order_moves_fast c r moves) st3 of
                     (Inl e, st4) \<Rightarrow> (Inl e, st4)
                   | (Inr best, st4) \<Rightarrow> (Inr best, store key best st4))))))"
  by pat_completeness auto
termination
  by (relation "measure (\<lambda>(c, r, depth, rest). depth)") (auto simp: NULL_MOVE_REDUCTION_def)

declare negamax.simps [simp del]


subsection \<open>SearchDriver: iterative\_deepening and choose\_best\_move\<close>

text \<open>
  How the \<^verbatim>\<open>for mv in root_moves\<close> loop of one depth ends: it runs to its end, it
  executes \<^verbatim>\<open>return best_mv\<close>, or an exception leaves it. In each case the value
  that the variable \<^verbatim>\<open>best_mv\<close> then holds is given too.
\<close>

datatype root_exit = Completed | Returned | Raised error

fun root_moves_loop ::
  "collab \<Rightarrow> rules \<Rightarrow> nat \<Rightarrow> real \<Rightarrow> params option \<Rightarrow> move list
     \<Rightarrow> score \<Rightarrow> score \<Rightarrow> score \<Rightarrow> move option \<Rightarrow> search_state
     \<Rightarrow> (root_exit \<times> move option) \<times> search_state" where
  "root_moves_loop c r depth stop_time eval_params [] alpha beta local_best best_mv st =
     ((Completed, best_mv), st)"
| "root_moves_loop c r depth stop_time eval_params (mv # mvs) alpha beta local_best best_mv st =
     (case now c st of (t, st1) \<Rightarrow>
      if t \<ge> float_sub c stop_time TIME_BUFFER then ((Raised TimeoutError, best_mv), st1)
      else
      (let child = (make_move c r mv)\<lparr>current_player := 3 - current_player r\<rparr> in
       case negamax c child (depth - 1) (- beta) (- alpha) (3 - current_player r)
              stop_time eval_params st1 of
         (Inl e, st2) \<Rightarrow> ((Raised e, best_mv), st2)
       | (Inr v, st2) \<Rightarrow>
           (let score = - v;
                local_best' = (if score > local_best then score else local_best);
                best_mv' = (if score > local_best then Some mv else best_mv);
                alpha' = max alpha score
            in if local_best' \<ge> Fin WIN_SCORE then ((Returned, best_mv'), st2)
               else root_moves_loop c r depth stop_time eval_params mvs
                      alpha' beta local_best' best_mv' st2)))"

text \<open>
  The \<^verbatim>\<open>for depth in range(1, MAX_DEPTH + 1)\<close> loop with its \<^verbatim>\<open>try\<close>: a
  TimeoutError breaks out of the loop, any other exception leaves the function.
\<close>

fun depth_loop ::
  "collab \<Rightarrow> rules \<Rightarrow> real \<Rightarrow> params option \<Rightarrow> move list \<Rightarrow> nat list
     \<Rightarrow> move option \<Rightarrow> search_state \<Rightarrow> (error + move option) \<times> search_state" where
  "depth_loop c r stop_time eval_params root_moves [] best_mv st = (Inr best_mv, st)"
| "depth_loop c r stop_time eval_params root_moves (depth # depths) best_mv st =
     (case root_moves_loop c r depth stop_time eval_params root_moves
             NegInf PosInf NegInf best_mv st of
        ((Completed, best_mv'), st') \<Rightarrow>
          depth_loop c r stop_time eval_params root_moves depths best_mv' st'
      | ((Returned, best_mv'), st') \<Rightarrow> (Inr best_mv', st')
      | ((Raised e, best_mv'), st') \<Rightarrow>
          (if e = TimeoutError then (Inr best_mv', st') else (Inl e, st')))"

definition iterative_deepening ::
  "collab \<Rightarrow> rules \<Rightarrow> real \<Rightarrow> params option \<Rightarrow> search_state
     \<Rightarrow> (error + move option) \<times> search_state" where
  "iterative_deepening c r budget eval_params st =
     (let st0 = st\<lparr>nodes_visited := 0, ttable := Map.empty\<rparr> in
      case now c st0 of (t, st1) \<Rightarrow>
      (let st2 = st1\<lparr>time_start := t, time_budget := budget\<rparr>;
           stop_time = float_add c t budget;
           eval_params' = (case eval_params of
                             None \<Rightarrow> Some (get_evaluation_params c) | Some p \<Rightarrow> Some p);
           root_moves = order_moves_fast c r (get_legal_moves c r (current_player r));
           best_mv = None
       in depth_loop c r stop_time eval_params' root_moves [1..<MAX_DEPTH + 1] best_mv st2))"

text \<open>The quick win check, \<^verbatim>\<open>for mv in moves[:3]\<close>, on the moves it is given.\<close>

fun quick_win_check :: "collab \<Rightarrow> rules \<Rightarrow> int \<Rightarrow> move list \<Rightarrow> move option" where
  "quick_win_check c r player [] = None"
| "quick_win_check c r player (mv # mvs) =
     (let tmp = make_move c r mv in
      if check_win_by_distance_or_capture c (board tmp) player then Some mv
      else quick_win_check c r player mvs)"

definition choose_best_move ::
  "collab \<Rightarrow> string \<Rightarrow> params option \<Rightarrow> search_state
     \<Rightarrow> (error + move option) \<times> search_state" where
  "choose_best_move c fen_str eval_params st =
     (case parse_fen fen_str of
        Inl e \<Rightarrow> (Inl e, st)
      | Inr (bd, player) \<Rightarrow>
          (let r = \<lparr>board = bd, current_player = player\<rparr>;
               eval_params' = (case eval_params of
                                 None \<Rightarrow> Some (get_evaluation_params c) | Some p \<Rightarrow> Some p)
           in case allocate_time fen_str of
                Inl e \<Rightarrow> (Inl e, st)
              | Inr budget \<Rightarrow>
                  (let moves = order_moves_fast c r (get_legal_moves c r player) in
                   case quick_win_check c r player (take 3 moves) of
                     Some mv \<Rightarrow> (Inr (Some mv), st)
                   | None \<Rightarrow> iterative_deepening c r budget eval_params' st)))"

text \<open>
  What the specification asks of the driver on a cancellation: the move of a depth
  replaces the result only when that depth has run to its end (or has proved a win).
\<close>

fun depth_loop_spec ::
  "collab \<Rightarrow> rules \<Rightarrow> real \<Rightarrow> params option \<Rightarrow> move list \<Rightarrow> nat list
     \<Rightarrow> move option \<Rightarrow> search_state \<Rightarrow> (error + move option) \<times> search_state" where
  "depth_loop_spec c r stop_time eval_params root_moves [] best_mv st = (Inr best_mv, st)"
| "depth_loop_spec c r stop_time eval_params root_moves (depth # depths) best_mv st =
     (case root_moves_loop c r depth stop_time eval_params root_moves
             NegInf PosInf NegInf best_mv st of
        ((Completed, best_mv'), st') \<Rightarrow>
          depth_loop_spec c r stop_time eval_params root_moves depths best_mv' st'
      | ((Returned, best_mv'), st') \<Rightarrow> (Inr best_mv', st')
      | ((Raised e, best_mv'), st') \<Rightarrow>
          (if e = TimeoutError then (Inr best_mv, st') else (Inl e, st')))"

definition iterative_deepening_spec ::
  "collab \<Rightarrow> rules \<Rightarrow> real \<Rightarrow> params option \<Rightarrow> search_state
     \<Rightarrow> (error + move option) \<times> search_state" where
  "iterative_deepening_spec c r budget eval_params st =
     (let st0 = st\<lparr>nodes_visited := 0, ttable := Map.empty\<rparr> in
      case now c st0 of (t, st1) \<Rightarrow>
      (let st2 = st1\<lparr>time_start := t, time_budget := budget\<rparr>;
           stop_time = float_add c t budget;
           eval_params' = (case eval_params of
                             None \<Rightarrow> Some (get_evaluation_params c) | Some p \<Rightarrow> Some p);
           root_moves = order_moves_fast c r (get_legal_moves c r (current_player r));
           best_mv = None
       in depth_loop_spec c r stop_time eval_params' root_moves [1..<MAX_DEPTH + 1] best_mv st2))"

section \<open>The plain minimax engine (Min\_max.py)\<close>

definition Min_max_WIN_SCORE :: int where "Min_max_WIN_SCORE = 1000000"

text \<open>
  \<^verbatim>\<open>priority\<close> of \<^verbatim>\<open>order_moves\<close>; \<^verbatim>\<open>piece_type.name\<close> raises AttributeError
  on None.
\<close>

definition priority :: "collab \<Rightarrow> rules \<Rightarrow> move \<Rightarrow> error + int" where
  "priority c r mv =
     (case mv of (from_pos, to_pos, height) \<Rightarrow>
        (let temp = make_move c r (from_pos, to_pos, height) in
         if check_win_by_distance_or_capture c (board temp) (current_player r) then Inr 3
         else (case get_top_piece_type c (board r) (fst from_pos) (snd from_pos) of
                 None \<Rightarrow> Inl AttributeError
               | Some name \<Rightarrow>
                   if name = ''WAECHTER'' then Inr 2
                   else (case get_stack_owner c (board r) (fst to_pos) (snd to_pos) of
                           None \<Rightarrow> Inr 0
                         | Some owner_dest \<Rightarrow>
                             if owner_dest \<noteq> current_player r then Inr 1 else Inr 0))))"

text \<open>The keys of \<^verbatim>\<open>sorted\<close>, computed once per move from the left.\<close>

fun priorities :: "collab \<Rightarrow> rules \<Rightarrow> move list \<Rightarrow> error + (int \<times> move) list" where
  "priorities c r [] = Inr []"
| "priorities c r (mv # mvs) =
     (case priority c r mv of
        Inl e \<Rightarrow> Inl e
      | Inr k \<Rightarrow> (case priorities c r mvs of
                    Inl e \<Rightarrow> Inl e
                  | Inr kms \<Rightarrow> Inr ((k, mv) # kms)))"

text \<open>
  \<^verbatim>\<open>sorted(moves, key=priority, reverse=True)\<close> is stable: moves of equal priority
  keep their order.
\<close>

definition order_moves :: "collab \<Rightarrow> rules \<Rightarrow> move list \<Rightarrow> error + move list" where
  "order_moves c r moves =
     (case priorities c r moves of
        Inl e \<Rightarrow> Inl e
      | Inr kms \<Rightarrow> Inr (map snd (sort_key (\<lambda>km. - fst km) kms)))"

fun minmax_moves ::
  "(rules \<Rightarrow> int \<Rightarrow> (error + score) \<times> int)
     \<Rightarrow> collab \<Rightarrow> rules \<Rightarrow> int \<Rightarrow> score \<Rightarrow> move list \<Rightarrow> int \<Rightarrow> (error + score) \<times> int" where
  "minmax_moves search c r player best [] n = (Inr best, n)"
| "minmax_moves search c r player best (mv # mvs) n =
     (let next_rules = (make_move c r mv)\<lparr>current_player := 3 - player\<rparr> in
      case search next_rules n of
        (Inl e, n') \<Rightarrow> (Inl e, n')
      | (Inr v, n') \<Rightarrow>
          (let val = - v;
               best' = (if val > best then val else best)
           in if best' \<ge> Fin Min_max_WIN_SCORE then (Inr best', n')
              else minmax_moves search c r player best' mvs n'))"

text \<open>
  The last argument and the second component of the result are the module's global
  \<^verbatim>\<open>nodes_visited\<close>. The depth is at least 1 at every call of
  \<^verbatim>\<open>choose_best_move\<close> (\<^verbatim>\<open>MAX_DEPTH\<close>, and 1 to 4 in the benchmark), so that
  \<^verbatim>\<open>minmax\<close> is entered with a depth of at least 0.
\<close>

function minmax :: "collab \<Rightarrow> rules \<Rightarrow> nat \<Rightarrow> int \<Rightarrow> int \<Rightarrow> (error + score) \<times> int" where
  "minmax c r depth player n =
     (let n1 = n + 1 in
      if check_win_by_distance_or_capture c (board r) player
        then (Inr (Fin Min_max_WIN_SCORE), n1)
      else if check_win_by_distance_or_capture c (board r) (3 - player)
        then (Inr (Fin (- Min_max_WIN_SCORE)), n1)
      else
      (let moves = get_legal_moves c r player in
       if depth = 0 \<or> moves = [] then
         (case evaluate c (to_fen c (board r) player) None of
            Inl e \<Rightarrow> (Inl e, n1)
          | Inr v \<Rightarrow> (Inr (Fin v), n1))
       else
         (case order_moves c r moves of
            Inl e \<Rightarrow> (Inl e, n1)
          | Inr ordered \<Rightarrow>
              minmax_moves (\<lambda>next_rules k. minmax c next_rules (depth - 1) (3 - player) k)
                c r player NegInf ordered n1)))"
  by pat_completeness auto
termination
  by (relation "measure (\<lambda>(c, r, depth, rest). depth)") auto

declare minmax.simps [simp del]

text \<open>The immediate-win check of \<^verbatim>\<open>choose_best_move\<close>: every trial is counted.\<close>

fun immediate_win :: "collab \<Rightarrow> rules \<Rightarrow> int \<Rightarrow> move list \<Rightarrow> int \<Rightarrow> move option \<times> int" where
  "immediate_win c r player [] n = (None, n)"
| "immediate_win c r player (mv # mvs) n =
     (let n1 = n + 1;
          temp_rules = make_move c r mv
      in if check_win_by_distance_or_capture c (board temp_rules) player then (Some mv, n1)
         else immediate_win c r player mvs n1)"

text \<open>The root loop of \<^verbatim>\<open>choose_best_move\<close>.\<close>

fun minmax_root ::
  "collab \<Rightarrow> rules \<Rightarrow> nat \<Rightarrow> int \<Rightarrow> move list \<Rightarrow> score \<Rightarrow> move option \<Rightarrow> int
     \<Rightarrow> (error + move option) \<times> int" where
  "minmax_root c r depth player [] best_score best_move n = (Inr best_move, n)"
| "minmax_root c r depth player (mv # mvs) best_score best_move n =
     (let n1 = n + 1;
          next_rules = (make_move c r mv)\<lparr>current_player := 3 - player\<rparr>
      in case minmax c next_rules (depth - 1) (3 - player) n1 of
           (Inl e, n2) \<Rightarrow> (Inl e, n2)
         | (Inr v, n2) \<Rightarrow>
             (let score = - v;
                  best_score' = (if score > best_score then score else best_score);
                  best_move' = (if score > best_score then Some mv else best_move)
              in if best_score' \<ge> Fin Min_max_WIN_SCORE then (Inr best_move', n2)
                 else minmax_root c r depth player mvs best_score' best_move' n2))"

text \<open>
  \<^verbatim>\<open>Min_max.choose_best_move\<close>. With no move at all \<^verbatim>\<open>best_move\<close> is still None
  at the end and \<^verbatim>\<open>describe_move(*best_move)\<close> raises TypeError.
\<close>

definition Min_max_choose_best_move ::
  "collab \<Rightarrow> string \<Rightarrow> nat \<Rightarrow> int \<Rightarrow> (error + code_points) \<times> int" where
  "Min_max_choose_best_move c fen_str depth n =
     (case parse_fen fen_str of
        Inl e \<Rightarrow> (Inl e, n)
      | Inr (bd, player) \<Rightarrow>
          (let r = \<lparr>board = bd, current_player = player\<rparr> in
           case order_moves c r (get_legal_moves c r player) of
             Inl e \<Rightarrow> (Inl e, n)
           | Inr moves \<Rightarrow>
               (case immediate_win c r player moves n of
                  (Some (from_pos, to_pos, height), n1) \<Rightarrow>
                    (describe_move from_pos to_pos height, n1)
                | (None, n1) \<Rightarrow>
                    (case minmax_root c r depth player moves NegInf None n1 of
                       (Inl e, n2) \<Rightarrow> (Inl e, n2)
                     | (Inr None, n2) \<Rightarrow> (Inl TypeError, n2)
                     | (Inr (Some (from_pos, to_pos, height)), n2) \<Rightarrow>
                         (describe_move from_pos to_pos height, n2)))))"


section \<open>A small rules engine for concrete runs\<close>

text \<open>
  The closed theorems below run the engine on concrete positions, which needs concrete
  collaborators. \<open>step_rules\<close> reads the board the way \<^verbatim>\<open>parse_fen\<close> writes it. Its
  rules are a fragment of the game: every unit of the side to move may step one square
  down, up, right or left onto a square that is empty or held by the opponent, and a unit
  stepped on is removed. Squares are scanned row by row from the top left.
\<close>

text \<open>Owner and height of the unit on a square; a guardian has height 0.\<close>

definition piece_at :: "bitboard \<Rightarrow> int \<Rightarrow> int \<Rightarrow> (int \<times> int) option" where
  "piece_at b x y =
     (if x < 0 \<or> x \<ge> 7 \<or> y < 0 \<or> y \<ge> 7 then None
      else (let p = y * 7 + x in
            if has_bit (red_guardian b) p then Some (1, 0)
            else if has_bit (blue_guardian b) p then Some (2, 0)
            else (case find (\<lambda>h. has_bit (red_towers b h) p) [1..7] of
                    Some h \<Rightarrow> Some (1, h)
                  | None \<Rightarrow>
                      (case find (\<lambda>h. has_bit (blue_towers b h) p) [1..7] of
                         Some h \<Rightarrow> Some (2, h)
                       | None \<Rightarrow> None))))"

definition step_stack_owner :: "bitboard \<Rightarrow> int \<Rightarrow> int \<Rightarrow> int option" where
  "step_stack_owner b x y = map_option fst (piece_at b x y)"

definition step_piece_type :: "bitboard \<Rightarrow> int \<Rightarrow> int \<Rightarrow> string option" where
  "step_piece_type b x y =
     map_option (\<lambda>(owner, h). if h = 0 then ''WAECHTER'' else ''TURM'') (piece_at b x y)"

text \<open>
  The guardian's distance to the opponent's start square, D1 for Red and D7 for Blue,
  counted in steps; 99 without a guardian.
\<close>

definition step_distance :: "bitboard \<Rightarrow> int \<Rightarrow> int" where
  "step_distance b player =
     (let g = (if player = 1 then red_guardian b else blue_guardian b) in
      if g = 0 then 99
      else (let p = bit_length g - 1;
                target = (if player = 1 then (3, 6) else (3, 0) :: int \<times> int)
            in \<bar>p mod 7 - fst target\<bar> + \<bar>p div 7 - snd target\<bar>))"

text \<open>The board as FEN: the inverse of \<^verbatim>\<open>parse_fen\<close>.\<close>

definition digit_char :: "int \<Rightarrow> char" where
  "digit_char n = char_of (48 + n)"

fun fen_row :: "bitboard \<Rightarrow> int \<Rightarrow> int list \<Rightarrow> int \<Rightarrow> string" where
  "fen_row b y [] empties = (if empties = 0 then [] else [digit_char empties])"
| "fen_row b y (x # xs) empties =
     (case piece_at b x y of
        None \<Rightarrow> fen_row b y xs (empties + 1)
      | Some (owner, h) \<Rightarrow>
          (if empties = 0 then [] else [digit_char empties])
          @ (if h = 0 then (if owner = 1 then ''RG'' else ''BG'')
             else (if owner = 1 then ''r'' else ''b'') @ [digit_char h])
          @ fen_row b y xs 0)"

fun join_rows :: "string list \<Rightarrow> string" where
  "join_rows [] = []"
| "join_rows [row] = row"
| "join_rows (row # rows) = row @ ''/'' @ join_rows rows"

definition step_to_fen :: "bitboard \<Rightarrow> int \<Rightarrow> string" where
  "step_to_fen b player =
     join_rows (map (\<lambda>y. fen_row b y [0, 1, 2, 3, 4, 5, 6] 0) [0, 1, 2, 3, 4, 5, 6])
     @ (if player = 1 then '' r'' else '' b'')"

definition clear_square :: "bitboard \<Rightarrow> int \<Rightarrow> bitboard" where
  "clear_square b p =
     \<lparr>red_guardian = unset_bit (nat p) (red_guardian b),
      blue_guardian = unset_bit (nat p) (blue_guardian b),
      red_towers = (\<lambda>h. unset_bit (nat p) (red_towers b h)),
      blue_towers = (\<lambda>h. unset_bit (nat p) (blue_towers b h))\<rparr>"

definition put_piece :: "bitboard \<Rightarrow> int \<Rightarrow> int \<times> int \<Rightarrow> bitboard" where
  "put_piece b p pc =
     (case pc of (owner, h) \<Rightarrow>
        if h = 0 then
          (if owner = 1 then b\<lparr>red_guardian := set_bit (nat p) (red_guardian b)\<rparr>
           else b\<lparr>blue_guardian := set_bit (nat p) (blue_guardian b)\<rparr>)
        else
          (if owner = 1
           then b\<lparr>red_towers := (red_towers b)(h := set_bit (nat p) (red_towers b h))\<rparr>
           else b\<lparr>blue_towers := (blue_towers b)(h := set_bit (nat p) (blue_towers b h))\<rparr>))"

definition step_make_move :: "rules \<Rightarrow> move \<Rightarrow> rules" where
  "step_make_move r mv =
     (case mv of ((fx, fy), (tx, ty), h) \<Rightarrow>
        (case piece_at (board r) fx fy of
           None \<Rightarrow> r
         | Some pc \<Rightarrow>
             r\<lparr>board := put_piece
                           (clear_square (clear_square (board r) (fy * 7 + fx)) (ty * 7 + tx))
                           (ty * 7 + tx) pc\<rparr>))"

definition steps_from :: "bitboard \<Rightarrow> int \<Rightarrow> int \<Rightarrow> int \<Rightarrow> move list" where
  "steps_from b player x y =
     (case piece_at b x y of
        None \<Rightarrow> []
      | Some (owner, h) \<Rightarrow>
          if owner \<noteq> player then []
          else concat (map (\<lambda>(dx, dy).
                 (let tx = x + dx; ty = y + dy in
                  if tx < 0 \<or> tx \<ge> 7 \<or> ty < 0 \<or> ty \<ge> 7 then []
                  else if map_option fst (piece_at b tx ty) = Some player then []
                  else [((x, y), (tx, ty), max 1 h)]))
               [(0, 1), (0, -1), (1, 0), (-1, 0)]))"

definition step_legal_moves :: "rules \<Rightarrow> int \<Rightarrow> move list" where
  "step_legal_moves r player =
     concat (map (\<lambda>y. concat (map (\<lambda>x. steps_from (board r) player x y)
                                  [0, 1, 2, 3, 4, 5, 6]))
               [0, 1, 2, 3, 4, 5, 6])"

text \<open>A deterministic stand-in for \<^verbatim>\<open>hash\<close>.\<close>

definition step_hash :: "string \<Rightarrow> int" where
  "step_hash s = foldl (\<lambda>h ch. h * 31 + of_char ch) 7 s"

text \<open>
  The collaborators, for a given clock. The sum and the difference of two floats are
  taken without rounding: at the clock readings used below (0 and 100 seconds, with
  budgets of 0.2 to 0.5 seconds) the rounded results compare with the readings in the
  same way.
\<close>

definition step_rules :: "(nat \<Rightarrow> real) \<Rightarrow> collab" where
  "step_rules clk =
     \<lparr>get_stack_owner = step_stack_owner,
      get_top_piece_type = step_piece_type,
      to_fen = step_to_fen,
      distance_to_opponent_start = step_distance,
      get_legal_moves = step_legal_moves,
      make_move = step_make_move,
      py_hash = step_hash,
      time_time = clk,
      float_add = (\<lambda>a b. a + b),
      float_sub = (\<lambda>a b. a - b),
      ml_optimized_params = DEFAULT_PARAMS\<rparr>"

text \<open>A process that has not searched yet.\<close>

definition fresh :: search_state where
  "fresh = \<lparr>nodes_visited = 0, ttable = Map.empty, time_start = 0, time_budget = 0, clock = 0\<rparr>"

text \<open>The position a FEN string describes (with an empty board for a string that does not parse).\<close>

definition rules_of_fen :: "string \<Rightarrow> rules" where
  "rules_of_fen fen_str =
     (case parse_fen fen_str of
        Inr (bd, player) \<Rightarrow> \<lparr>board = bd, current_player = player\<rparr>
      | Inl e \<Rightarrow> \<lparr>board = empty_board, current_player = 1\<rparr>)"

text \<open>
  A clock that stands at 0 for its first \<open>k\<close> readings and at 100 seconds from then on.
\<close>

definition jump_clock :: "nat \<Rightarrow> nat \<Rightarrow> real" where
  "jump_clock k i = (if i < k then 0 else 100)"


(*DEFS_END*)

section \<open>Lemmas about the game-phase classifier\<close>

lemma split_ws_Nil_iff: "split_ws s = [] \<longleftrightarrow> (\<forall>c\<in>set s. is_space c)"
  by (subst split_ws.simps) (auto simp: Let_def dropWhile_eq_Nil_conv)




lemma in_half_defined:
  "split_ws fen \<noteq> [] \<Longrightarrow> \<exists>n. count_enemy_pieces_in_half fen = Inr n \<and> 0 \<le> n"
  by (auto simp: count_enemy_pieces_in_half_def Let_def split: list.splits intro!: sum_list_nonneg)

section \<open>Lemmas about the move orderer\<close>

lemma order_loop_filter:
  "order_loop c r ms (g, cp, ot) =
     (g @ filter (is_guardian_move c r) ms,
      cp @ filter (\<lambda>m. \<not> is_guardian_move c r m \<and> is_capture_move c r m) ms,
      ot @ filter (\<lambda>m. \<not> is_guardian_move c r m \<and> \<not> is_capture_move c r m) ms)"
  by (induction ms arbitrary: g cp ot) simp_all

lemma order_moves_fast_filter:
  "order_moves_fast c r ms =
     filter (is_guardian_move c r) ms
     @ filter (\<lambda>m. \<not> is_guardian_move c r m \<and> is_capture_move c r m) ms
     @ filter (\<lambda>m. \<not> is_guardian_move c r m \<and> \<not> is_capture_move c r m) ms"
  by (simp add: order_moves_fast_def order_loop_filter)

lemma set_order_moves_fast: "set (order_moves_fast c r ms) = set ms"
  by (auto simp: order_moves_fast_filter)

lemma order_moves_fast_Nil: "order_moves_fast c r [] = []"
  by (simp add: order_moves_fast_def)

lemma is_guardian_move_collab:
  "get_top_piece_type c' = get_top_piece_type c \<Longrightarrow> is_guardian_move c' r = is_guardian_move c r"
  by (rule ext) (simp add: is_guardian_move_def)

lemma is_capture_move_collab:
  "get_stack_owner c' = get_stack_owner c \<Longrightarrow> is_capture_move c' r = is_capture_move c r"
  by (rule ext) (simp add: is_capture_move_def)

lemma order_moves_fast_collab:
  "get_stack_owner c' = get_stack_owner c \<Longrightarrow> get_top_piece_type c' = get_top_piece_type c
     \<Longrightarrow> order_moves_fast c' r ms = order_moves_fast c r ms"
  using is_guardian_move_collab[of c' c r] is_capture_move_collab[of c' c r]
  by (simp add: order_moves_fast_filter)

section \<open>Lemmas about the driver\<close>

lemma quick_win_check_find:
  "quick_win_check c r player ms =
     find (\<lambda>mv. check_win_by_distance_or_capture c (board (make_move c r mv)) player) ms"
  by (induction ms) (simp_all add: Let_def)

lemma root_moves_loop_Nil_result:
  "root_moves_loop c r d stop ep [] a b lb bm st = ((Completed, bm), st)"
  by simp

lemma depth_loop_no_moves:
  "depth_loop c r stop ep [] ds bm st = (Inr bm, st)"
  by (induction ds arbitrary: bm st) simp_all

lemma root_moves_loop_best:
  "root_moves_loop c r d stop ep mvs a b lb bm st = ((ex, bm'), st')
     \<Longrightarrow> bm' = bm \<or> (\<exists>m\<in>set mvs. bm' = Some m)"
proof (induction mvs arbitrary: a lb bm st)
  case Nil
  then show ?case by simp
next
  case (Cons mv mvs)
  show ?case
  proof (cases "fst (now c st) \<ge> float_sub c stop TIME_BUFFER")
    case True
    with Cons.prems show ?thesis by (simp add: case_prod_beta)
  next
    case False
    let ?child = "(make_move c r mv)\<lparr>current_player := 3 - current_player r\<rparr>"
    obtain res st2 where n: "negamax c ?child (d - 1) (- b) (- a) (3 - current_player r)
        stop ep (snd (now c st)) = (res, st2)"
      by (cases "negamax c ?child (d - 1) (- b) (- a) (3 - current_player r) stop ep (snd (now c st))")
    show ?thesis
    proof (cases res)
      case (Inl e)
      with Cons.prems False n show ?thesis by (simp add: case_prod_beta)
    next
      case (Inr v)
      show ?thesis
      proof (cases "Fin WIN_SCORE \<le> (if - v > lb then - v else lb)")
        case True
        with Cons.prems False n Inr show ?thesis
          by (auto simp: case_prod_beta Let_def split: if_splits)
      next
        case nw: False
        from Cons.prems False n Inr nw
        have "root_moves_loop c r d stop ep mvs (max a (- v)) b
                (if - v > lb then - v else lb) (if - v > lb then Some mv else bm) st2
              = ((ex, bm'), st')"
          by (simp add: case_prod_beta Let_def)
        from Cons.IH[OF this] show ?thesis by (auto split: if_splits)
      qed
    qed
  qed
qed

lemma depth_loop_best:
  "depth_loop c r stop ep rms ds bm st = (Inr bm', st')
     \<Longrightarrow> bm' = bm \<or> (\<exists>m\<in>set rms. bm' = Some m)"
proof (induction ds arbitrary: bm st)
  case Nil
  then show ?case by simp
next
  case (Cons d ds)
  obtain ex b st1 where rl: "root_moves_loop c r d stop ep rms NegInf PosInf NegInf bm st
      = ((ex, b), st1)"
    by (metis prod.exhaust)
  from root_moves_loop_best[OF rl] have b: "b = bm \<or> (\<exists>m\<in>set rms. b = Some m)" .
  show ?case
  proof (cases ex)
    case Completed
    with Cons.prems rl have "depth_loop c r stop ep rms ds b st1 = (Inr bm', st')" by simp
    from Cons.IH[OF this] b show ?thesis by auto
  next
    case Returned
    with Cons.prems rl b show ?thesis by auto
  next
    case (Raised e)
    with Cons.prems rl b show ?thesis by (auto split: if_splits)
  qed
qed

lemma iterative_deepening_best:
  "iterative_deepening c r budget ep st = (Inr (Some mv), st')
     \<Longrightarrow> mv \<in> set (get_legal_moves c r (current_player r))"
  by (auto simp: iterative_deepening_def Let_def case_prod_beta set_order_moves_fast
           dest!: depth_loop_best)

lemma set_py_strip: "set (py_strip s) \<subseteq> set s"
  by (auto simp: py_strip_def dest!: set_dropWhileD)

lemma parse_fen_fields: "parse_fen fen_str = Inr x \<Longrightarrow> split_ws fen_str \<noteq> []"
proof
  assume p: "parse_fen fen_str = Inr x" and "split_ws fen_str = []"
  then have "\<forall>c\<in>set (py_strip fen_str). is_space c"
    using set_py_strip[of fen_str] by (auto simp: split_ws_Nil_iff)
  then have "split_ws (py_strip fen_str) = []" by (simp add: split_ws_Nil_iff)
  with p show False by (simp add: parse_fen_def)
qed

lemma parse_fen_budget:
  "parse_fen fen_str = Inr x \<Longrightarrow> \<exists>budget. allocate_time fen_str = Inr budget"
proof -
  assume "parse_fen fen_str = Inr x"
  then have "split_ws fen_str \<noteq> []" by (rule parse_fen_fields)
  then obtain n where "count_enemy_pieces_in_half fen_str = Inr n"
    using in_half_defined by blast
  then show ?thesis by (simp add: allocate_time_def detect_game_phase_def Let_def)
qed


section \<open>Lemmas about str.count on a FEN string\<close>










section \<open>Lemmas used by the concrete runs\<close>

lemma find_Some_set: "find P xs = Some x \<Longrightarrow> x \<in> set xs \<and> P x"
  by (induction xs) (auto split: if_splits)

lemma rules_of_fen_parse:
  "(case parse_fen fen_str of Inl e \<Rightarrow> False | Inr x \<Rightarrow> True)
     \<Longrightarrow> parse_fen fen_str = Inr (board (rules_of_fen fen_str), current_player (rules_of_fen fen_str))"
  by (auto simp: rules_of_fen_def split: sum.splits)


(*HELPERS_END*)

section \<open>The game-phase classifier\<close>




text \<open>
  C10: the classifier never returns \<open>endgame_critical\<close>, on any input string, so that
  entry of the budget table is never looked up; whenever a budget is allocated it is one
  of 0.2, 0.3, 0.4 and 0.5 seconds. The only other outcome is the IndexError of
  \<^verbatim>\<open>fen_str.split()[0]\<close> on a string without any field.
\<close>

theorem phase_never_endgame_critical:
  "detect_game_phase fen_str \<noteq> Inr ''endgame_critical'' \<and>
   (case allocate_time fen_str of
      Inl e \<Rightarrow> e = IndexError \<and> split_ws fen_str = []
    | Inr b \<Rightarrow> split_ws fen_str \<noteq> [] \<and> b \<in> {0.2, 0.3, 0.4, 0.5})"
proof (cases "split_ws fen_str")
  case Nil
  then show ?thesis
    by (simp add: allocate_time_def detect_game_phase_def count_enemy_pieces_in_half_def Let_def)
next
  case (Cons f fs)
  then obtain n where n: "count_enemy_pieces_in_half fen_str = Inr n"
    using in_half_defined[of fen_str] by auto
  show ?thesis using Cons n
    by (simp add: allocate_time_def detect_game_phase_def Let_def phase_budget_def)
qed

theorem phase_never_endgame_critical_witness:
  "detect_game_phase ''3BG3/2b11b12/7/7/3r13/7/3RG3 r'' = Inr ''endgame''
   \<and> detect_game_phase ''3BG3/2b11b12/7/7/3r13/7/3RG3 r'' \<noteq> Inr ''endgame_critical''
   \<and> allocate_time ''3BG3/2b11b12/7/7/3r13/7/3RG3 r'' = Inr 0.2"
proof -
  have e: "detect_game_phase ''3BG3/2b11b12/7/7/3r13/7/3RG3 r'' = Inr ''endgame''"
    by code_simp
  have a: "allocate_time ''3BG3/2b11b12/7/7/3r13/7/3RG3 r'' = Inr 0.2"
    by code_simp
  have n: "detect_game_phase ''3BG3/2b11b12/7/7/3r13/7/3RG3 r'' \<noteq> Inr ''endgame_critical''"
    using phase_never_endgame_critical [of "''3BG3/2b11b12/7/7/3r13/7/3RG3 r''"] by (rule conjunct1)
  from e n a show ?thesis by (intro conjI)
qed

end
